theory Spec2Isabelle
  imports Complex_Main
begin

section \<open>Python values, dictionaries and exceptions\<close>

text \<open>
  The scripts move JSON-like values between the iCloud client, MongoDB and Flask.
  \<open>PDateTime\<close> is a \<^verbatim>\<open>datetime\<close> (an instant, compared by its number), Python's
  \<^verbatim>\<open>float\<close> is carried as a real number: no modelled path computes with it.
\<close>

datatype pyval =
    PNone
  | PBool bool
  | PInt int
  | PFloat real
  | PStr string
  | PList "pyval list"
  | PDict "(string \<times> pyval) list"
  | PDateTime nat

type_synonym dict = "(string \<times> pyval) list"

text \<open>\<^verbatim>\<open>d.get(k, default)\<close>; \<^verbatim>\<open>d.get(k)\<close> is \<open>dict_get d k PNone\<close>.\<close>

definition dict_get :: "dict \<Rightarrow> string \<Rightarrow> pyval \<Rightarrow> pyval" where
  "dict_get d k dflt = (case map_of d k of None \<Rightarrow> dflt | Some v \<Rightarrow> v)"

text \<open>\<^verbatim>\<open>d[k] = v\<close>: an existing key keeps its place, a new key goes last.\<close>

fun dict_set :: "dict \<Rightarrow> string \<Rightarrow> pyval \<Rightarrow> dict" where
  "dict_set [] k v = [(k, v)]"
| "dict_set ((k', v') # d) k v = (if k' = k then (k, v) # d else (k', v') # dict_set d k v)"

datatype exn =
    KeyError string
  | AttributeError string
  | TypeError
  | ValueError
  | OverflowError
  | ProviderError string
  | SinkError string

text \<open>\<^verbatim>\<open>str(e)\<close>: a \<^verbatim>\<open>KeyError\<close> prints its key quoted.\<close>

fun str_exn :: "exn \<Rightarrow> string" where
  "str_exn (KeyError k) = [CHR 0x27] @ k @ [CHR 0x27]"
| "str_exn (AttributeError m) = m"
| "str_exn TypeError = ''''"
| "str_exn ValueError = ''''"
| "str_exn OverflowError = ''int too large to convert to float''"
| "str_exn (ProviderError m) = m"
| "str_exn (SinkError m) = m"

text \<open>\<^verbatim>\<open>d[k]\<close> raises \<^verbatim>\<open>KeyError\<close> on a missing key.\<close>

definition dict_item :: "dict \<Rightarrow> string \<Rightarrow> exn + pyval" where
  "dict_item d k = (case map_of d k of None \<Rightarrow> Inl (KeyError k) | Some v \<Rightarrow> Inr v)"

fun type_name :: "pyval \<Rightarrow> string" where
  "type_name PNone = ''NoneType''"
| "type_name (PBool _) = ''bool''"
| "type_name (PInt _) = ''int''"
| "type_name (PFloat _) = ''float''"
| "type_name (PStr _) = ''str''"
| "type_name (PList _) = ''list''"
| "type_name (PDict _) = ''dict''"
| "type_name (PDateTime _) = ''datetime.datetime''"

text \<open>
  \<^verbatim>\<open>v.isoformat()\<close>: only a \<^verbatim>\<open>datetime\<close> has the method. The text it prints is the
  datetime library's; it is the parameter \<open>fmt\<close>.
\<close>

fun isoformat :: "(nat \<Rightarrow> string) \<Rightarrow> pyval \<Rightarrow> exn + pyval" where
  "isoformat fmt (PDateTime t) = Inr (PStr (fmt t))"
| "isoformat fmt v =
     Inl (AttributeError ([CHR 0x27] @ type_name v @ [CHR 0x27] @ '' object has no attribute '' @
       [CHR 0x27] @ ''isoformat'' @ [CHR 0x27]))"

text \<open>Truthiness of \<^verbatim>\<open>os.getenv\<close> results and request values: \<^verbatim>\<open>None\<close> and \<^verbatim>\<open>""\<close> are false.\<close>

fun truthy_str :: "string option \<Rightarrow> bool" where
  "truthy_str None = False"
| "truthy_str (Some s) = (s \<noteq> [])"

section \<open>The MongoDB collection\<close>

text \<open>
  A stored document is its \<^verbatim>\<open>_id\<close> (an ObjectId, here the number the driver drew) and its
  other fields. The collection is the list of documents in insertion order; the scripts
  never delete. The driver gives every inserted document a fresh \<^verbatim>\<open>_id\<close>. Whether a
  write raises is decided by the environment (see \<open>poll\<close> and \<open>tick\<close> below), and a
  write that raises stores nothing; a query is answered from the list.
\<close>

type_synonym document = "nat \<times> dict"
type_synonym collection = "document list"

definition insert_one :: "dict \<Rightarrow> collection \<Rightarrow> nat \<times> collection" where
  "insert_one doc c = (length c, c @ [(length c, doc)])"

definition insert_many :: "dict list \<Rightarrow> collection \<Rightarrow> nat list \<times> collection" where
  "insert_many docs c =
     ([length c ..< length c + length docs], c @ zip [length c ..< length c + length docs] docs)"

text \<open>
  \<^verbatim>\<open>update_one({"_id": i}, {"$currentDate": {"timestamp": True}})\<close>: the first document
  with that \<^verbatim>\<open>_id\<close> gets the server's clock value \<open>now\<close> as its \<^verbatim>\<open>timestamp\<close>.
\<close>

fun update_one_currentDate :: "nat \<Rightarrow> nat \<Rightarrow> collection \<Rightarrow> collection" where
  "update_one_currentDate i now [] = []"
| "update_one_currentDate i now ((j, d) # c) =
     (if j = i then (j, dict_set d ''timestamp'' (PDateTime now)) # c
      else (j, d) # update_one_currentDate i now c)"

text \<open>
  The sort key of \<^verbatim>\<open>sort=[("timestamp", -1)]\<close>. In MongoDB's comparison order a date is
  above a missing field and above every other kind of value the scripts store, so those
  are all \<open>None\<close>, below every \<open>Some t\<close>.
\<close>

definition timestamp_key :: "document \<Rightarrow> nat option" where
  "timestamp_key doc = (case map_of (snd doc) ''timestamp'' of Some (PDateTime t) \<Rightarrow> Some t | _ \<Rightarrow> None)"

fun key_less :: "nat option \<Rightarrow> nat option \<Rightarrow> bool" where
  "key_less None None = False"
| "key_less None (Some t) = True"
| "key_less (Some s) None = False"
| "key_less (Some s) (Some t) = (s < t)"

text \<open>
  \<^verbatim>\<open>find_one({"device_id": v}, sort=[("timestamp", -1)])\<close>: of the documents whose
  \<^verbatim>\<open>device_id\<close> is \<open>v\<close> (a missing field matches \<^verbatim>\<open>None\<close>), the one with the greatest
  sort key; among equal keys the one inserted first.
\<close>

definition matches :: "pyval \<Rightarrow> document \<Rightarrow> bool" where
  "matches v doc = (dict_get (snd doc) ''device_id'' PNone = v)"

fun find_one :: "pyval \<Rightarrow> collection \<Rightarrow> document option" where
  "find_one v [] = None"
| "find_one v (doc # c) =
     (if matches v doc then
        (case find_one v c of
           None \<Rightarrow> Some doc
         | Some doc' \<Rightarrow> if key_less (timestamp_key doc) (timestamp_key doc') then Some doc' else Some doc)
      else find_one v c)"

section \<open>The Flask application: authentication and the read path\<close>

record request =
  header_X_API_Key :: "string option"
  arg_api_key :: "string option"

text \<open>A response is \<^verbatim>\<open>jsonify(body), status\<close>; the status is 200 when the code gives none.\<close>

type_synonym response = "pyval \<times> nat"

text \<open>
  The decorator of the protected endpoints. \<open>API_KEY\<close> is \<^verbatim>\<open>os.getenv('API_KEY')\<close>, \<open>f\<close> the
  decorated view, which may change the world \<open>w\<close>. The key a request provides is the
  header, and the query parameter when the header is missing or empty.
\<close>

definition provided_key :: "request \<Rightarrow> string option" where
  "provided_key req =
     (let provided_key = header_X_API_Key req
      in if \<not> truthy_str provided_key then arg_api_key req else provided_key)"

definition require_api_key ::
  "string option \<Rightarrow> ('w \<Rightarrow> response \<times> 'w) \<Rightarrow> request \<Rightarrow> 'w \<Rightarrow> response \<times> 'w" where
  "require_api_key API_KEY f req w =
     (if \<not> truthy_str API_KEY then
        ((PDict [(''error'', PStr ''API_KEY not configured''),
                 (''message'', PStr ''Please set API_KEY in .env file for security'')], 500), w)
      else if \<not> truthy_str (provided_key req) then
        ((PDict [(''error'', PStr ''Missing API key''),
                 (''message'',
                  PStr ''Provide API key via X-API-Key header or ?api_key= parameter'')], 401), w)
      else if provided_key req \<noteq> API_KEY then
        ((PDict [(''error'', PStr ''Invalid API key''),
                 (''message'', PStr ''The provided API key is incorrect'')], 403), w)
      else f w)"

text \<open>
  The globals of \<^verbatim>\<open>app.py\<close> the views read: the collection, the \<^verbatim>\<open>data\<close> dictionary of the
  target device, and how often \<^verbatim>\<open>play_sound\<close> has been accepted by the provider.
\<close>

record app =
  mongo_collection :: collection
  target_device :: dict
  sounds_played :: nat

text \<open>
  \<^verbatim>\<open>get_location\<close>. \<open>str_oid\<close> is \<^verbatim>\<open>str\<close> on an ObjectId and \<open>fmt\<close> the text of
  \<^verbatim>\<open>datetime.isoformat\<close>, both library code. The document comes back from the driver with
  \<^verbatim>\<open>_id\<close> as its first field.
\<close>

definition get_location :: "(nat \<Rightarrow> string) \<Rightarrow> (nat \<Rightarrow> string) \<Rightarrow> app \<Rightarrow> response \<times> app" where
  "get_location str_oid fmt w =
     (case find_one (dict_get (target_device w) ''id'' PNone) (mongo_collection w) of
        None \<Rightarrow> ((PDict [(''error'', PStr ''No location data found'')], 404), w)
      | Some (oid, doc) \<Rightarrow>
          let latest = (''_id'', PStr (str_oid oid)) # doc in
          (case dict_item latest ''timestamp'' of
             Inl e \<Rightarrow> ((PDict [(''error'', PStr (str_exn e))], 500), w)
           | Inr ts \<Rightarrow>
               (case isoformat fmt ts of
                  Inl e \<Rightarrow> ((PDict [(''error'', PStr (str_exn e))], 500), w)
                | Inr s \<Rightarrow> ((PDict (dict_set latest ''timestamp'' s), 200), w))))"

text \<open>
  \<^verbatim>\<open>trigger_alarm\<close> and \<^verbatim>\<open>get_status\<close>. \<open>play\<close> is what \<^verbatim>\<open>target_device.play_sound()\<close>
  does (\<open>Some e\<close>: it raises), \<open>st\<close> what \<^verbatim>\<open>target_device.status()\<close> returns, \<open>now\<close> the
  reading of \<^verbatim>\<open>datetime.utcnow()\<close>, \<open>str_val\<close> Python's \<^verbatim>\<open>str\<close> inside the f-string.
\<close>

definition trigger_alarm ::
  "(pyval \<Rightarrow> string) \<Rightarrow> (nat \<Rightarrow> string) \<Rightarrow> exn option \<Rightarrow> nat \<Rightarrow> app \<Rightarrow> response \<times> app" where
  "trigger_alarm str_val fmt play now w =
     (case play of
        Some e \<Rightarrow> ((PDict [(''status'', PStr ''error''), (''message'', PStr (str_exn e))], 500), w)
      | None \<Rightarrow>
          ((PDict [(''status'', PStr ''success''),
                   (''message'',
                    PStr (''Alarm triggered on '' @ str_val (dict_get (target_device w) ''name'' PNone))),
                   (''timestamp'', PStr (fmt now @ ''Z''))], 200),
           w\<lparr>sounds_played := Suc (sounds_played w)\<rparr>))"

definition get_status :: "(nat \<Rightarrow> string) \<Rightarrow> exn + dict \<Rightarrow> nat \<Rightarrow> app \<Rightarrow> response \<times> app" where
  "get_status fmt st now w =
     (case st of
        Inl e \<Rightarrow> ((PDict [(''error'', PStr (str_exn e))], 500), w)
      | Inr status \<Rightarrow>
          let data = target_device w in
          ((PDict [(''device_id'', dict_get data ''id'' PNone),
                   (''name'', dict_get data ''name'' PNone),
                   (''model'', dict_get data ''deviceDisplayName'' PNone),
                   (''battery_level'', dict_get status ''batteryLevel'' PNone),
                   (''battery_status'', dict_get status ''batteryStatus'' PNone),
                   (''device_status'', dict_get data ''deviceStatus'' PNone),
                   (''location_enabled'', dict_get data ''locationEnabled'' PNone),
                   (''timestamp'', PStr (fmt now @ ''Z''))], 200), w))"

text \<open>The three protected routes.\<close>

definition route_location ::
  "string option \<Rightarrow> (nat \<Rightarrow> string) \<Rightarrow> (nat \<Rightarrow> string) \<Rightarrow> request \<Rightarrow> app \<Rightarrow> response \<times> app" where
  "route_location API_KEY str_oid fmt = require_api_key API_KEY (get_location str_oid fmt)"

definition route_alarm ::
  "string option \<Rightarrow> (pyval \<Rightarrow> string) \<Rightarrow> (nat \<Rightarrow> string) \<Rightarrow> exn option \<Rightarrow> nat \<Rightarrow>
     request \<Rightarrow> app \<Rightarrow> response \<times> app" where
  "route_alarm API_KEY str_val fmt play now =
     require_api_key API_KEY (trigger_alarm str_val fmt play now)"

definition route_status ::
  "string option \<Rightarrow> (nat \<Rightarrow> string) \<Rightarrow> exn + dict \<Rightarrow> nat \<Rightarrow> request \<Rightarrow> app \<Rightarrow> response \<times> app" where
  "route_status API_KEY fmt st now = require_api_key API_KEY (get_status fmt st now)"

section \<open>The record mapper\<close>

text \<open>
  What one device object of the iCloud client gives when it is polled: its \<^verbatim>\<open>data\<close>
  dictionary, the result of \<^verbatim>\<open>status()\<close> and the result of \<^verbatim>\<open>location()\<close>
  (\<open>Inl\<close>: the call raises; \<open>Inr None\<close>: no location).
\<close>

record device =
  dev_data :: dict
  dev_status :: "exn + dict"
  dev_location :: "exn + dict option"

text \<open>
  \<^verbatim>\<open>try: location = ... except: location = None\<close>, the same in all three trackers.
\<close>

definition located :: "exn + dict option \<Rightarrow> dict option" where
  "located r = (case r of Inl _ \<Rightarrow> None | Inr l \<Rightarrow> l)"

text \<open>\<^verbatim>\<open>if location:\<close> is false for \<^verbatim>\<open>None\<close> and for an empty dictionary.\<close>

fun truthy_dict :: "dict option \<Rightarrow> bool" where
  "truthy_dict None = False"
| "truthy_dict (Some d) = (d \<noteq> [])"

text \<open>The two dictionaries built from a location, the same text in all three trackers.\<close>

definition geo_point :: "dict \<Rightarrow> pyval" where
  "geo_point location =
     PDict [(''type'', PStr ''Point''),
            (''coordinates'',
             PList [dict_get location ''longitude'' PNone, dict_get location ''latitude'' PNone])]"

definition location_data :: "dict \<Rightarrow> pyval" where
  "location_data location =
     PDict [(''latitude'', dict_get location ''latitude'' PNone),
            (''longitude'', dict_get location ''longitude'' PNone),
            (''accuracy'', dict_get location ''horizontalAccuracy'' PNone),
            (''position_type'', dict_get location ''positionType'' PNone),
            (''is_old'', dict_get location ''isOld'' (PBool False)),
            (''location_timestamp'', dict_get location ''timeStamp'' PNone)]"

text \<open>
  The \<^verbatim>\<open>if location: ... else: ...\<close> that ends the mapping, also the same text in all
  three.
\<close>

definition with_location :: "dict \<Rightarrow> dict option \<Rightarrow> dict" where
  "with_location info location =
     (case location of
        None \<Rightarrow> dict_set (dict_set info ''location'' PNone) ''location_data'' PNone
      | Some loc \<Rightarrow>
          if truthy_dict location
          then dict_set (dict_set info ''location'' (geo_point loc))
                 ''location_data'' (location_data loc)
          else dict_set (dict_set info ''location'' PNone) ''location_data'' PNone)"

text \<open>
  The body of the loop of \<^verbatim>\<open>fetch_device_locations\<close> (both command-line trackers) after
  the three fetches; \<open>now\<close> is the reading of \<^verbatim>\<open>datetime.now()\<close>.
\<close>

definition device_info :: "dict \<Rightarrow> dict \<Rightarrow> dict option \<Rightarrow> nat \<Rightarrow> dict" where
  "device_info data status location now =
     with_location
       [(''device_id'', dict_get data ''id'' PNone),
        (''name'', dict_get data ''name'' (PStr ''Unknown'')),
        (''model'', dict_get data ''deviceDisplayName'' (PStr ''Unknown'')),
        (''device_class'', dict_get data ''deviceClass'' (PStr ''Unknown'')),
        (''raw_model'', dict_get data ''rawDeviceModel'' (PStr ''Unknown'')),
        (''battery_level'', dict_get status ''batteryLevel'' PNone),
        (''battery_status'', dict_get status ''batteryStatus'' PNone),
        (''device_status'', dict_get data ''deviceStatus'' PNone),
        (''location_enabled'', dict_get data ''locationEnabled'' (PBool False)),
        (''timestamp'', PDateTime now)]
       location"

text \<open>The dictionary \<^verbatim>\<open>track_location\<close> of \<^verbatim>\<open>app.py\<close> builds: no \<^verbatim>\<open>timestamp\<close> key.\<close>

definition device_info_app :: "dict \<Rightarrow> dict \<Rightarrow> dict option \<Rightarrow> dict" where
  "device_info_app data status location =
     with_location
       [(''device_id'', dict_get data ''id'' PNone),
        (''name'', dict_get data ''name'' (PStr ''Unknown'')),
        (''model'', dict_get data ''deviceDisplayName'' (PStr ''Unknown'')),
        (''device_class'', dict_get data ''deviceClass'' (PStr ''Unknown'')),
        (''battery_level'', dict_get status ''batteryLevel'' PNone),
        (''battery_status'', dict_get status ''batteryStatus'' PNone)]
       location"

section \<open>Printing\<close>

text \<open>Sequencing of steps that may raise.\<close>

fun ebind :: "exn + 'a \<Rightarrow> ('a \<Rightarrow> exn + 'b) \<Rightarrow> exn + 'b" where
  "ebind (Inl e) f = Inl e"
| "ebind (Inr x) f = f x"

text \<open>
  An \<^verbatim>\<open>int\<close> is formatted with \<^verbatim>\<open>f\<close> through its conversion to \<^verbatim>\<open>float\<close>, which rounds to
  53 bits, ties to even: it raises \<^verbatim>\<open>OverflowError\<close> from \<open>2 ^ 1024 - 2 ^ 970\<close> on, the
  midpoint between the greatest \<^verbatim>\<open>float\<close> and \<open>2 ^ 1024\<close>.
\<close>

definition fits_float :: "int \<Rightarrow> bool" where
  "fits_float i = (\<bar>i\<bar> < 2 ^ 1024 - 2 ^ 970)"

text \<open>
  A format specification \<^verbatim>\<open>:.6f\<close> or \<^verbatim>\<open>:.0f\<close> in an f-string: a \<^verbatim>\<open>float\<close> and a
  \<^verbatim>\<open>bool\<close> are printed, an \<^verbatim>\<open>int\<close> when it converts to \<^verbatim>\<open>float\<close>; a \<^verbatim>\<open>datetime\<close> takes
  the specification as a \<^verbatim>\<open>strftime\<close> pattern and prints it; a string raises
  \<^verbatim>\<open>ValueError\<close>; \<^verbatim>\<open>None\<close>, a list and a dictionary raise \<^verbatim>\<open>TypeError\<close>.
\<close>

fun format_f :: "pyval \<Rightarrow> exn + unit" where
  "format_f (PBool _) = Inr ()"
| "format_f (PInt i) = (if fits_float i then Inr () else Inl OverflowError)"
| "format_f (PFloat _) = Inr ()"
| "format_f (PDateTime _) = Inr ()"
| "format_f (PStr _) = Inl ValueError"
| "format_f PNone = Inl TypeError"
| "format_f (PList _) = Inl TypeError"
| "format_f (PDict _) = Inl TypeError"

text \<open>\<^verbatim>\<open>v * 100\<close>: numbers multiply, strings and lists repeat, the rest raises.\<close>

fun times_100 :: "pyval \<Rightarrow> exn + pyval" where
  "times_100 (PBool b) = Inr (PInt (if b then 100 else 0))"
| "times_100 (PInt i) = Inr (PInt (i * 100))"
| "times_100 (PFloat r) = Inr (PFloat (r * 100))"
| "times_100 (PStr s) = Inr (PStr (concat (replicate 100 s)))"
| "times_100 (PList xs) = Inr (PList (concat (replicate 100 xs)))"
| "times_100 _ = Inl TypeError"

fun truthy :: "pyval \<Rightarrow> bool" where
  "truthy PNone = False"
| "truthy (PBool b) = b"
| "truthy (PInt i) = (i \<noteq> 0)"
| "truthy (PFloat r) = (r \<noteq> 0)"
| "truthy (PStr s) = (s \<noteq> [])"
| "truthy (PList xs) = (xs \<noteq> [])"
| "truthy (PDict d) = (d \<noteq> [])"
| "truthy (PDateTime _) = True"

text \<open>\<^verbatim>\<open>v[k]\<close> with a string key: only a dictionary can be subscripted so.\<close>

fun subscript :: "pyval \<Rightarrow> string \<Rightarrow> exn + pyval" where
  "subscript (PDict d) k = dict_item d k"
| "subscript _ k = Inl TypeError"

text \<open>
  One pass of the \<^verbatim>\<open>for loc in locations\<close> loop of \<^verbatim>\<open>display_summary\<close> in
  \<^verbatim>\<open>track_to_mongodb.py\<close>: the heading, the coordinates, the battery.
\<close>

definition display_loc :: "dict \<Rightarrow> exn + unit" where
  "display_loc loc =
     ebind (dict_item loc ''name'') (\<lambda>_.
     ebind (dict_item loc ''model'') (\<lambda>_.
     ebind (if truthy (dict_get loc ''location_data'' PNone) then
              ebind (dict_item loc ''location_data'') (\<lambda>ld.
              ebind (subscript ld ''latitude'') (\<lambda>lat.
              ebind (subscript ld ''longitude'') (\<lambda>lon.
              ebind (subscript ld ''accuracy'') (\<lambda>acc.
              ebind (format_f lat) (\<lambda>_. format_f lon)))))
            else Inr ()) (\<lambda>_.
     let battery = dict_get loc ''battery_level'' PNone in
     if battery \<noteq> PNone then ebind (times_100 battery) format_f else Inr ())))"

fun display_summary :: "dict list \<Rightarrow> exn + unit" where
  "display_summary [] = Inr ()"
| "display_summary (loc # locations) = ebind (display_loc loc) (\<lambda>_. display_summary locations)"

text \<open>The same loop in \<^verbatim>\<open>track_to_mongodb_docker.py\<close>: the battery text comes first.\<close>

definition display_loc_docker :: "dict \<Rightarrow> exn + unit" where
  "display_loc_docker loc =
     (let battery = dict_get loc ''battery_level'' PNone in
      ebind (if battery \<noteq> PNone then ebind (times_100 battery) format_f else Inr ()) (\<lambda>_.
      ebind (dict_item loc ''name'') (\<lambda>_.
      ebind (dict_item loc ''model'') (\<lambda>_.
      if truthy (dict_get loc ''location_data'' PNone) then
        ebind (dict_item loc ''location_data'') (\<lambda>ld.
        ebind (subscript ld ''latitude'') (\<lambda>lat.
        ebind (subscript ld ''longitude'') (\<lambda>lon.
        ebind (subscript ld ''accuracy'') (\<lambda>acc.
        ebind (format_f lat) (\<lambda>_. format_f lon)))))
      else Inr ()))))"

fun display_summary_docker :: "dict list \<Rightarrow> exn + unit" where
  "display_summary_docker [] = Inr ()"
| "display_summary_docker (loc # locations) =
     ebind (display_loc_docker loc) (\<lambda>_. display_summary_docker locations)"

text \<open>
  The progress line \<^verbatim>\<open>track_location\<close> prints when there is a location: latitude and
  longitude with \<^verbatim>\<open>:.6f\<close>, the accuracy as it is, the battery level (0 when the key is
  missing) times 100 with \<^verbatim>\<open>:.0f\<close>.
\<close>

definition print_tracked :: "dict \<Rightarrow> dict \<Rightarrow> exn + unit" where
  "print_tracked info status =
     ebind (dict_item info ''location_data'') (\<lambda>ld.
     ebind (subscript ld ''latitude'') (\<lambda>lat.
     ebind (format_f lat) (\<lambda>_.
     ebind (subscript ld ''longitude'') (\<lambda>lon.
     ebind (format_f lon) (\<lambda>_.
     ebind (subscript ld ''accuracy'') (\<lambda>acc.
     ebind (times_100 (dict_get status ''batteryLevel'' (PInt 0))) format_f))))))"

section \<open>The command-line trackers\<close>

text \<open>
  The loops are \<^verbatim>\<open>while True\<close> and \<^verbatim>\<open>while tracking_active\<close>: a run is followed over a
  list of passes, one entry per pass saying what the provider, the clock and the database
  do in it, and ends \<open>Running\<close> when the list is used up with the loop still going. The
  interval is not negative, so \<^verbatim>\<open>time.sleep\<close> returns; an interrupt from outside is not
  part of a run.

  What is observed of a run: whether an error message was printed, and each
  \<^verbatim>\<open>time.sleep(interval)\<close>.
\<close>

datatype event = ErrorPrinted | Slept

record tracker =
  coll :: collection
  events :: "event list"

text \<open>
  What the environment does during one pass of \<^verbatim>\<open>while True\<close>: \<^verbatim>\<open>api.devices\<close> (it may
  raise), each device paired with the reading of \<^verbatim>\<open>datetime.now()\<close> taken while it is
  mapped, and whether \<^verbatim>\<open>insert_many\<close> raises. A call that raises stores nothing.
\<close>

record poll =
  api_devices :: "exn + (device \<times> nat) list"
  insert_many_raises :: "exn option"

text \<open>
  One pass of \<^verbatim>\<open>for device in devices\<close>: \<^verbatim>\<open>status()\<close> may raise, \<^verbatim>\<open>location()\<close> has
  its own bare \<^verbatim>\<open>except\<close>.
\<close>

definition fetch_device :: "device \<Rightarrow> nat \<Rightarrow> exn + dict" where
  "fetch_device device now =
     (case dev_status device of
        Inl e \<Rightarrow> Inl e
      | Inr status \<Rightarrow>
          let location = located (dev_location device)
          in Inr (device_info (dev_data device) status location now))"

fun fetch_loop :: "(device \<times> nat) list \<Rightarrow> dict list \<Rightarrow> exn + dict list" where
  "fetch_loop [] locations = Inr locations"
| "fetch_loop ((device, now) # devices) locations =
     (case fetch_device device now of
        Inl e \<Rightarrow> Inl e
      | Inr info \<Rightarrow> fetch_loop devices (locations @ [info]))"

text \<open>\<^verbatim>\<open>fetch_device_locations\<close>: any exception is printed and the result is \<^verbatim>\<open>[]\<close>.\<close>

definition fetch_device_locations :: "exn + (device \<times> nat) list \<Rightarrow> dict list \<times> event list" where
  "fetch_device_locations api =
     (case ebind api (\<lambda>devices. fetch_loop devices []) of
        Inl e \<Rightarrow> ([], [ErrorPrinted])
      | Inr locations \<Rightarrow> (locations, []))"

text \<open>\<^verbatim>\<open>save_to_mongodb\<close>: the number saved, the collection, what was printed.\<close>

definition save_to_mongodb ::
  "exn option \<Rightarrow> collection \<Rightarrow> dict list \<Rightarrow> nat \<times> collection \<times> event list" where
  "save_to_mongodb raises c locations =
     (if locations = [] then (0, c, [])
      else case raises of
             Some e \<Rightarrow> (0, c, [ErrorPrinted])
           | None \<Rightarrow> (let (inserted_ids, c') = insert_many locations c
                      in (length inserted_ids, c', [])))"

text \<open>
  The body of \<^verbatim>\<open>while True\<close> in \<^verbatim>\<open>track_continuously\<close>, up to and including the sleep.
  \<open>Inl\<close>: an exception leaves the loop, with the state reached so far.
\<close>

definition track_iteration :: "poll \<Rightarrow> tracker \<Rightarrow> tracker + tracker" where
  "track_iteration p st =
     (let (locations, ev1) = fetch_device_locations (api_devices p) in
      case display_summary locations of
        Inl e \<Rightarrow> Inl (st\<lparr>events := events st @ ev1\<rparr>)
      | Inr _ \<Rightarrow>
          let (saved_count, c', ev2) = save_to_mongodb (insert_many_raises p) (coll st) locations
          in Inr \<lparr>coll = c', events = events st @ ev1 @ ev2 @ [Slept]\<rparr>)"

text \<open>
  How a run over the listed passes ends: still in the loop, returned from
  \<^verbatim>\<open>track_continuously\<close> after printing the error, or \<^verbatim>\<open>sys.exit(1)\<close>.
\<close>

datatype loop_end = Running | Returned | Exited nat

fun track_continuously :: "poll list \<Rightarrow> tracker \<Rightarrow> tracker \<times> loop_end" where
  "track_continuously [] st = (st, Running)"
| "track_continuously (p # ps) st =
     (case track_iteration p st of
        Inl st' \<Rightarrow> (st'\<lparr>events := events st' @ [ErrorPrinted]\<rparr>, Returned)
      | Inr st' \<Rightarrow> track_continuously ps st')"

text \<open>\<^verbatim>\<open>track_once\<close>: one fetch, summary and save, no sleep; an exception propagates.\<close>

definition track_once :: "poll \<Rightarrow> tracker \<Rightarrow> tracker + tracker" where
  "track_once p st =
     (let (locations, ev1) = fetch_device_locations (api_devices p) in
      case display_summary locations of
        Inl e \<Rightarrow> Inl (st\<lparr>events := events st @ ev1\<rparr>)
      | Inr _ \<Rightarrow>
          let (saved_count, c', ev2) = save_to_mongodb (insert_many_raises p) (coll st) locations
          in Inr \<lparr>coll = c', events = events st @ ev1 @ ev2\<rparr>)"

text \<open>The Docker tracker: its own summary, and a fatal error exits the process.\<close>

definition track_iteration_docker :: "poll \<Rightarrow> tracker \<Rightarrow> tracker + tracker" where
  "track_iteration_docker p st =
     (let (locations, ev1) = fetch_device_locations (api_devices p) in
      case display_summary_docker locations of
        Inl e \<Rightarrow> Inl (st\<lparr>events := events st @ ev1\<rparr>)
      | Inr _ \<Rightarrow>
          let (saved_count, c', ev2) = save_to_mongodb (insert_many_raises p) (coll st) locations
          in Inr \<lparr>coll = c', events = events st @ ev1 @ ev2 @ [Slept]\<rparr>)"

fun track_continuously_docker :: "poll list \<Rightarrow> tracker \<Rightarrow> tracker \<times> loop_end" where
  "track_continuously_docker [] st = (st, Running)"
| "track_continuously_docker (p # ps) st =
     (case track_iteration_docker p st of
        Inl st' \<Rightarrow> (st'\<lparr>events := events st' @ [ErrorPrinted]\<rparr>, Exited 1)
      | Inr st' \<Rightarrow> track_continuously_docker ps st')"

section \<open>The tracking thread of the Flask application\<close>

text \<open>
  What the environment does during one pass of \<^verbatim>\<open>while tracking_active\<close>: the flag as
  the loop test reads it, the results of \<^verbatim>\<open>status()\<close> and \<^verbatim>\<open>location\<close>, whether
  \<^verbatim>\<open>insert_one\<close> raises, and \<^verbatim>\<open>update_one\<close>: it raises, or the server writes its clock
  value.
\<close>

record tick =
  tracking_active :: bool
  tick_status :: "exn + dict"
  tick_location :: "exn + dict option"
  insert_one_raises :: "exn option"
  update_one_result :: "exn + nat"

text \<open>The \<^verbatim>\<open>try\<close> block of \<^verbatim>\<open>track_location\<close>; \<open>Inl\<close> carries the collection as the exception left it.\<close>

definition track_location_try :: "dict \<Rightarrow> tick \<Rightarrow> collection \<Rightarrow> (exn \<times> collection) + collection" where
  "track_location_try data t c =
     (case tick_status t of
        Inl e \<Rightarrow> Inl (e, c)
      | Inr status \<Rightarrow>
          let location = located (tick_location t);
              info = device_info_app data status location
          in
            case (if truthy_dict location then print_tracked info status else Inr ()) of
              Inl e \<Rightarrow> Inl (e, c)
            | Inr _ \<Rightarrow>
                (case insert_one_raises t of
                   Some e \<Rightarrow> Inl (e, c)
                 | None \<Rightarrow>
                     let (inserted_id, c') = insert_one info c in
                     (case update_one_result t of
                        Inl e \<Rightarrow> Inl (e, c')
                      | Inr now \<Rightarrow> Inr (update_one_currentDate inserted_id now c'))))"

text \<open>One pass: the \<^verbatim>\<open>try\<close> block, the \<^verbatim>\<open>except\<close> that prints, the sleep.\<close>

definition track_location_pass :: "dict \<Rightarrow> tick \<Rightarrow> tracker \<Rightarrow> tracker" where
  "track_location_pass data t st =
     (case track_location_try data t (coll st) of
        Inl (e, c') \<Rightarrow> \<lparr>coll = c', events = events st @ [ErrorPrinted, Slept]\<rparr>
      | Inr c' \<Rightarrow> \<lparr>coll = c', events = events st @ [Slept]\<rparr>)"

fun track_location :: "dict \<Rightarrow> tick list \<Rightarrow> tracker \<Rightarrow> tracker \<times> loop_end" where
  "track_location data [] st = (st, Running)"
| "track_location data (t # ts) st =
     (if tracking_active t then track_location data ts (track_location_pass data t st)
      else (st, Returned))"

section \<open>Worked inputs\<close>

text \<open>
  Stand-ins for the two library renderings (\<^verbatim>\<open>str\<close> of an ObjectId, \<^verbatim>\<open>isoformat\<close>), and
  the device of the examples below. The theorems hold for every rendering.
\<close>

definition example_str_oid :: "nat \<Rightarrow> string" where
  "example_str_oid n = ''oid'' @ replicate n (CHR ''i'')"

definition example_isoformat :: "nat \<Rightarrow> string" where
  "example_isoformat t = ''T'' @ replicate t (CHR ''i'')"

definition example_data :: dict where
  "example_data =
     [(''id'', PStr ''device-1''), (''name'', PStr ''Jane's iPhone''),
      (''deviceDisplayName'', PStr ''iPhone 16 Pro'')]"

definition example_status :: dict where
  "example_status = [(''batteryLevel'', PFloat 0.82)]"

definition example_location :: "nat \<Rightarrow> dict" where
  "example_location T =
     [(''latitude'', PFloat 37.7749), (''longitude'', PFloat (- 122.4194)),
      (''horizontalAccuracy'', PFloat 5.0), (''timeStamp'', PInt (int T))]"

text \<open>A pass of the Flask tracker in which \<^verbatim>\<open>update_one\<close> raises after the insert.\<close>

definition tick_update_raises :: tick where
  "tick_update_raises =
     \<lparr>tracking_active = True, tick_status = Inr example_status,
      tick_location = Inr (Some (example_location 1700000000)),
      insert_one_raises = None, update_one_result = Inl (SinkError ''connection lost'')\<rparr>"

definition example_request :: request where
  "example_request = \<lparr>header_X_API_Key = Some ''secret'', arg_api_key = None\<rparr>"

text \<open>A pass of the Flask tracker in which every step succeeds; the server clock reads \<open>now\<close>.\<close>

definition tick_ok :: "nat \<Rightarrow> tick" where
  "tick_ok now =
     \<lparr>tracking_active = True, tick_status = Inr example_status,
      tick_location = Inr (Some (example_location 1700000000)),
      insert_one_raises = None, update_one_result = Inr now\<rparr>"

definition empty_tracker :: tracker where
  "empty_tracker = \<lparr>coll = [], events = []\<rparr>"

definition example_app :: "collection \<Rightarrow> app" where
  "example_app c = \<lparr>mongo_collection = c, target_device = example_data, sounds_played = 0\<rparr>"

text \<open>The device of the worked example (section 8 of the specification), with fix time \<open>T\<close>.\<close>

definition example_device :: "nat \<Rightarrow> device" where
  "example_device T =
     \<lparr>dev_data = example_data, dev_status = Inr example_status,
      dev_location = Inr (Some (example_location T))\<rparr>"

text \<open>A pass of the Flask tracker whose location has no \<^verbatim>\<open>latitude\<close>.\<close>

definition tick_no_latitude :: tick where
  "tick_no_latitude =
     \<lparr>tracking_active = True, tick_status = Inr example_status,
      tick_location = Inr (Some [(''longitude'', PFloat (- 122.4194))]),
      insert_one_raises = None, update_one_result = Inr 0\<rparr>"


text \<open>A pass of the command-line tracker over the example device; the clock reads \<open>now\<close>.\<close>

definition example_poll :: "nat \<Rightarrow> poll" where
  "example_poll now =
     \<lparr>api_devices = Inr [(example_device 1700000000, now)], insert_many_raises = None\<rparr>"

section \<open>Passes in which a step raises\<close>







section \<open>Timestamps in insertion order\<close>

text \<open>
  The creation timestamps of a collection in insertion order (documents without one are
  skipped), the readings of \<^verbatim>\<open>datetime.now()\<close> of a pass of a command-line tracker, the
  server clock value a pass of the Flask tracker may write, and the property of ObjectIds
  the model needs: no stored document has an \<^verbatim>\<open>_id\<close> the driver is still to draw.
\<close>

definition timestamps :: "collection \<Rightarrow> nat list" where
  "timestamps c = concat (map (\<lambda>doc. case timestamp_key doc of None \<Rightarrow> [] | Some t \<Rightarrow> [t]) c)"

definition clock_readings :: "poll \<Rightarrow> nat list" where
  "clock_readings p = (case api_devices p of Inl _ \<Rightarrow> [] | Inr devices \<Rightarrow> map snd devices)"

definition server_clock :: "tick \<Rightarrow> nat list" where
  "server_clock t = (case update_one_result t of Inl _ \<Rightarrow> [] | Inr now \<Rightarrow> [now])"

definition fresh_ids :: "collection \<Rightarrow> bool" where
  "fresh_ids c = list_all (\<lambda>doc. fst doc < length c) c"

section \<open>Successful passes\<close>




text \<open>The record of a device whose \<^verbatim>\<open>status()\<close> succeeds, and what a pass stores of them.\<close>

definition mapped :: "device \<Rightarrow> nat \<Rightarrow> dict" where
  "mapped device now = (case fetch_device device now of Inl _ \<Rightarrow> [] | Inr info \<Rightarrow> info)"

definition batch :: "nat \<Rightarrow> (device \<times> nat) list \<Rightarrow> collection" where
  "batch n ds = zip [n ..< n + length ds] (map (\<lambda>(device, now). mapped device now) ds)"




section \<open>Dictionaries and the mapper: basic facts\<close>

lemma map_of_dict_set [simp]:
  "map_of (dict_set d k v) k' = (if k' = k then Some v else map_of d k')"
  by (induction d) auto

lemma map_of_with_location:
  "k \<noteq> ''location'' \<Longrightarrow> k \<noteq> ''location_data'' \<Longrightarrow>
   map_of (with_location info location) k = map_of info k"
  by (simp add: with_location_def split: option.splits)

lemma device_info_app_no_timestamp:
  "map_of (device_info_app data status location) ''timestamp'' = None"
  by (simp add: device_info_app_def map_of_with_location)

lemma device_info_timestamp:
  "map_of (device_info data status location now) ''timestamp'' = Some (PDateTime now)"
  by (simp add: device_info_def map_of_with_location)

lemma device_info_app_device_id:
  "dict_get (device_info_app data status location) ''device_id'' PNone = dict_get data ''id'' PNone"
  by (simp add: device_info_app_def map_of_with_location dict_get_def [of "with_location _ _"])


section \<open>The API key\<close>

text \<open>
  C10. When a request carries a non-empty \<^verbatim>\<open>X-API-Key\<close> header, the answer of a protected
  endpoint does not depend on the \<^verbatim>\<open>api_key\<close> query parameter: the provided key is the
  header. When the header is missing or empty, the provided key is the query parameter.
\<close>

theorem header_decides:
  assumes "truthy_str (header_X_API_Key req)"
  shows "require_api_key API_KEY f (req\<lparr>arg_api_key := q\<rparr>) w = require_api_key API_KEY f req w
    \<and> provided_key req = header_X_API_Key req
    \<and> provided_key (req\<lparr>header_X_API_Key := None\<rparr>) = arg_api_key req
    \<and> provided_key (req\<lparr>header_X_API_Key := Some []\<rparr>) = arg_api_key req"
  using assms by (simp add: require_api_key_def provided_key_def)

theorem header_decides_witness:
  "truthy_str (header_X_API_Key example_request)
   \<and> require_api_key (Some ''secret'') (Pair (PNone, 200)) (example_request\<lparr>arg_api_key := Some ''wrong''\<rparr>) ()
     = ((PNone, 200), ())
   \<and> require_api_key (Some ''secret'') (Pair (PNone, 200))
       (example_request\<lparr>header_X_API_Key := Some ''wrong'', arg_api_key := Some ''secret''\<rparr>) ()
     \<noteq> ((PNone, 200), ())"
  using header_decides [of example_request "Some ''secret''" "Pair (PNone, 200)" "Some ''wrong''" "()"]
  by (simp add: example_request_def require_api_key_def provided_key_def)

text \<open>
  C6. With no API key configured (\<^verbatim>\<open>API_KEY\<close> unset or empty), each of the three protected
  routes answers 500 whatever the request carries, and the view is not run: the world is
  unchanged, so no alarm is sounded.
\<close>

theorem fail_closed:
  assumes "\<not> truthy_str API_KEY"
  shows "snd (fst (route_location API_KEY str_oid fmt req w)) = 500
     \<and> snd (fst (route_status API_KEY fmt st now req w)) = 500
     \<and> snd (fst (route_alarm API_KEY str_val fmt play now req w)) = 500
     \<and> snd (route_location API_KEY str_oid fmt req w) = w
     \<and> snd (route_status API_KEY fmt st now req w) = w
     \<and> snd (route_alarm API_KEY str_val fmt play now req w) = w"
  using assms
  by (simp add: route_location_def route_status_def route_alarm_def require_api_key_def)

theorem fail_closed_witness:
  "\<not> truthy_str None
   \<and> snd (fst (route_alarm None type_name example_isoformat None 0 example_request
        \<lparr>mongo_collection = [], target_device = example_data, sounds_played = 0\<rparr>)) = 500
   \<and> sounds_played (snd (route_alarm None type_name example_isoformat None 0 example_request
        \<lparr>mongo_collection = [], target_device = example_data, sounds_played = 0\<rparr>)) = 0
   \<and> snd (fst (route_alarm (Some []) type_name example_isoformat None 0 example_request
        \<lparr>mongo_collection = [], target_device = example_data, sounds_played = 0\<rparr>)) = 500"
  using fail_closed [where API_KEY = None and str_val = type_name and fmt = example_isoformat
      and play = None and now = 0 and req = example_request
      and w = "\<lparr>mongo_collection = [], target_device = example_data, sounds_played = 0\<rparr>"]
    fail_closed [where API_KEY = "Some []" and str_val = type_name and fmt = example_isoformat
      and play = None and now = 0 and req = example_request
      and w = "\<lparr>mongo_collection = [], target_device = example_data, sounds_played = 0\<rparr>"]
  by simp

section \<open>The read path\<close>

lemma dict_get_dict_set [simp]:
  "dict_get (dict_set d k v) k' dflt = (if k' = k then v else dict_get d k' dflt)"
  by (simp add: dict_get_def)

lemma dict_set_twice [simp]: "dict_set (dict_set d k v) k v' = dict_set d k v'"
  by (induction d) auto

lemmas example_defs = example_data_def example_status_def example_location_def
  example_request_def tick_update_raises_def tick_ok_def empty_tracker_def example_app_def
  example_str_oid_def example_isoformat_def

lemmas flask_pass_defs = track_location_pass_def track_location_try_def located_def
  device_info_app_def with_location_def dict_get_def dict_item_def print_tracked_def
  geo_point_def location_data_def insert_one_def

lemma get_location_found:
  assumes "find_one (dict_get (target_device w) ''id'' PNone) (mongo_collection w) = Some (oid, doc)"
    and "map_of doc ''timestamp'' = Some (PDateTime t)"
  shows "get_location str_oid fmt w =
    ((PDict ((''_id'', PStr (str_oid oid)) # dict_set doc ''timestamp'' (PStr (fmt t))), 200), w)"
  using assms by (simp add: get_location_def dict_item_def)

lemma get_location_no_timestamp:
  assumes "find_one (dict_get (target_device w) ''id'' PNone) (mongo_collection w) = Some (oid, doc)"
    and "map_of doc ''timestamp'' = None"
  shows "get_location str_oid fmt w =
    ((PDict [(''error'', PStr (str_exn (KeyError ''timestamp'')))], 500), w)"
  using assms by (simp add: get_location_def dict_item_def)

lemma example_stored:
  "find_one (dict_get example_data ''id'' PNone)
     [(0, dict_set (device_info_app example_data example_status None) ''timestamp'' (PDateTime 2))]
   = Some (0, dict_set (device_info_app example_data example_status None) ''timestamp'' (PDateTime 2))"
  by (simp add: matches_def device_info_app_device_id)

text \<open>
  The answers of \<^verbatim>\<open>GET /location\<close> with an API key configured: 401 when the request
  provides no key (header and query parameter missing or empty), 403 when the provided
  key differs from the configured one, 404 when the key is right and \<^verbatim>\<open>find_one\<close> finds
  no document of the target device; when the key is right and the document \<^verbatim>\<open>find_one\<close>
  returns has a \<^verbatim>\<open>timestamp\<close> that is a date, 200 with that document, its \<^verbatim>\<open>_id\<close> as a
  string and its \<^verbatim>\<open>timestamp\<close> as the \<^verbatim>\<open>isoformat\<close> text; when that document has no
  \<^verbatim>\<open>timestamp\<close> field, 500.
\<close>

lemma location_statuses:
  assumes "truthy_str API_KEY"
  shows "(\<not> truthy_str (provided_key req) \<longrightarrow>
           snd (fst (route_location API_KEY str_oid fmt req w)) = 401)
    \<and> (truthy_str (provided_key req) \<and> provided_key req \<noteq> API_KEY \<longrightarrow>
           snd (fst (route_location API_KEY str_oid fmt req w)) = 403)
    \<and> (provided_key req = API_KEY \<and>
         find_one (dict_get (target_device w) ''id'' PNone) (mongo_collection w) = None \<longrightarrow>
           snd (fst (route_location API_KEY str_oid fmt req w)) = 404)
    \<and> (provided_key req = API_KEY \<and>
         find_one (dict_get (target_device w) ''id'' PNone) (mongo_collection w) = Some (oid, doc) \<and>
         map_of doc ''timestamp'' = Some (PDateTime t) \<longrightarrow>
           fst (route_location API_KEY str_oid fmt req w) =
             (PDict ((''_id'', PStr (str_oid oid)) # dict_set doc ''timestamp'' (PStr (fmt t))), 200))
    \<and> (provided_key req = API_KEY \<and>
         find_one (dict_get (target_device w) ''id'' PNone) (mongo_collection w) = Some (oid, doc) \<and>
         map_of doc ''timestamp'' = None \<longrightarrow>
           snd (fst (route_location API_KEY str_oid fmt req w)) = 500)"
  using assms
  by (auto simp add: route_location_def require_api_key_def get_location_def dict_item_def)

lemma location_statuses_example:
  "truthy_str (Some ''secret'')
   \<and> snd (fst (route_location (Some ''secret'') example_str_oid example_isoformat
        (example_request\<lparr>header_X_API_Key := None\<rparr>) (example_app []))) = 401
   \<and> snd (fst (route_location (Some ''secret'') example_str_oid example_isoformat
        (example_request\<lparr>header_X_API_Key := Some ''guess''\<rparr>) (example_app []))) = 403
   \<and> snd (fst (route_location (Some ''secret'') example_str_oid example_isoformat
        example_request (example_app []))) = 404
   \<and> fst (route_location (Some ''secret'') example_str_oid example_isoformat example_request
        (example_app [(0, dict_set (device_info_app example_data example_status None)
                           ''timestamp'' (PDateTime 2))])) =
       (PDict ((''_id'', PStr (example_str_oid 0)) #
          dict_set (device_info_app example_data example_status None) ''timestamp''
            (PStr (example_isoformat 2))), 200)"
proof -
  have k: "truthy_str (Some ''secret'')" by simp
  have p1: "\<not> truthy_str (provided_key (example_request\<lparr>header_X_API_Key := None\<rparr>))"
    by (simp add: provided_key_def example_request_def)
  have p2: "truthy_str (provided_key (example_request\<lparr>header_X_API_Key := Some ''guess''\<rparr>))
     \<and> provided_key (example_request\<lparr>header_X_API_Key := Some ''guess''\<rparr>) \<noteq> Some ''secret''"
    by (simp add: provided_key_def example_request_def)
  have p3: "provided_key example_request = Some ''secret''"
    by (simp add: provided_key_def example_request_def)
  have f3: "find_one (dict_get (target_device (example_app [])) ''id'' PNone)
     (mongo_collection (example_app [])) = None"
    by (simp add: example_app_def)
  have f4: "find_one (dict_get (target_device (example_app [(0, dict_set (device_info_app example_data example_status None) ''timestamp'' (PDateTime 2))])) ''id'' PNone)
     (mongo_collection (example_app [(0, dict_set (device_info_app example_data example_status None) ''timestamp'' (PDateTime 2))]))
     = Some (0, dict_set (device_info_app example_data example_status None) ''timestamp'' (PDateTime 2))"
    using example_stored by (simp add: example_app_def)
  have t4: "map_of (dict_set (device_info_app example_data example_status None) ''timestamp'' (PDateTime 2))
     ''timestamp'' = Some (PDateTime 2)"
    by simp
  show ?thesis
    using k p1 p2 p3 f3 f4 t4
      location_statuses [OF k, where str_oid = example_str_oid
        and fmt = example_isoformat and req = "example_request\<lparr>header_X_API_Key := None\<rparr>"
        and w = "example_app []"]
      location_statuses [OF k, where str_oid = example_str_oid
        and fmt = example_isoformat and req = "example_request\<lparr>header_X_API_Key := Some ''guess''\<rparr>"
        and w = "example_app []"]
      location_statuses [OF k, where str_oid = example_str_oid
        and fmt = example_isoformat and req = "example_request"
        and w = "example_app []"]
      location_statuses [OF k, where str_oid = example_str_oid
        and fmt = example_isoformat and req = "example_request"
        and w = "example_app [(0, dict_set (device_info_app example_data example_status None)
                             ''timestamp'' (PDateTime 2))]" and oid = 0
        and doc = "dict_set (device_info_app example_data example_status None)
                             ''timestamp'' (PDateTime 2)" and t = 2]
    by simp
qed

text \<open>
  C5. With the right key and a stored record of the device, \<^verbatim>\<open>GET /location\<close> is to
  return the record. After a first pass of the Flask tracker in which \<^verbatim>\<open>update_one\<close>
  raises, the only stored record of the device has no \<^verbatim>\<open>timestamp\<close> field, and the
  request with the right key is answered 500, with the \<^verbatim>\<open>KeyError\<close> as the error text.
\<close>

theorem location_half_written_500:
  "coll (fst (track_location example_data [tick_update_raises] empty_tracker)) =
     [(0, device_info_app example_data example_status (Some (example_location 1700000000)))]
   \<and> fst (route_location (Some ''secret'') example_str_oid example_isoformat example_request
        (example_app (coll (fst (track_location example_data [tick_update_raises] empty_tracker)))))
     = (PDict [(''error'', PStr (str_exn (KeyError ''timestamp'')))], 500)"
  by (simp add: example_defs flask_pass_defs route_location_def require_api_key_def provided_key_def
       get_location_def matches_def)

section \<open>Insert, then update\<close>

lemma update_one_fresh:
  "\<forall>d\<in>set c. fst d \<noteq> i \<Longrightarrow>
   update_one_currentDate i now (c @ [(i, doc)]) = c @ [(i, dict_set doc ''timestamp'' (PDateTime now))]"
  by (induction c) auto

lemma track_location_try_update_raises:
  assumes "tick_status t = Inr status"
    and "truthy_dict (located (tick_location t)) \<longrightarrow>
         print_tracked (device_info_app data status (located (tick_location t))) status = Inr ()"
    and "insert_one_raises t = None"
    and "update_one_result t = Inl e"
  shows "track_location_try data t c =
         Inl (e, c @ [(length c, device_info_app data status (located (tick_location t)))])"
  using assms by (auto simp add: track_location_try_def insert_one_def Let_def)

lemma track_location_try_ok:
  assumes "tick_status t = Inr status"
    and "truthy_dict (located (tick_location t)) \<longrightarrow>
         print_tracked (device_info_app data status (located (tick_location t))) status = Inr ()"
    and "insert_one_raises t = None"
    and "update_one_result t = Inr now"
    and "\<forall>d\<in>set c. fst d \<noteq> length c"
  shows "track_location_try data t c =
         Inr (c @ [(length c, dict_set (device_info_app data status (located (tick_location t)))
                      ''timestamp'' (PDateTime now))])"
  using assms by (auto simp add: track_location_try_def insert_one_def Let_def update_one_fresh)

lemma example_print_ok:
  "print_tracked (device_info_app example_data example_status
      (located (tick_location tick_update_raises))) example_status = Inr ()"
  by (simp add: example_defs flask_pass_defs)

text \<open>
  C9. In a pass of the Flask tracker that gets as far as the insert, the document handed
  to \<^verbatim>\<open>insert_one\<close> has no \<^verbatim>\<open>timestamp\<close> field, and that is how it is stored between
  the two calls; the field appears only when \<^verbatim>\<open>update_one\<close> succeeds. When
  \<^verbatim>\<open>update_one\<close> raises, the pass ends with the document stored without the field, and
  \<^verbatim>\<open>get_location\<close> on a collection where that document is the device's only one answers
  500 with the \<^verbatim>\<open>KeyError\<close> as its error text.
\<close>

theorem insert_then_update:
  assumes "tick_status t = Inr status"
    and "truthy_dict (located (tick_location t)) \<longrightarrow> print_tracked info status = Inr ()"
    and "insert_one_raises t = None"
    and "update_one_result t = Inl e"
    and "info = device_info_app data status (located (tick_location t))"
  shows "map_of info ''timestamp'' = None
    \<and> snd (insert_one info c) = c @ [(length c, info)]
    \<and> track_location_try data t c = Inl (e, c @ [(length c, info)])
    \<and> coll (track_location_pass data t \<lparr>coll = c, events = ev\<rparr>) = c @ [(length c, info)]
    \<and> track_location_try data (t\<lparr>update_one_result := Inr now\<rparr>) [] =
        Inr [(0, dict_set info ''timestamp'' (PDateTime now))]
    \<and> get_location str_oid fmt \<lparr>mongo_collection = [(0, info)], target_device = data, sounds_played = n\<rparr> =
        ((PDict [(''error'', PStr (str_exn (KeyError ''timestamp'')))], 500),
         \<lparr>mongo_collection = [(0, info)], target_device = data, sounds_played = n\<rparr>)"
proof -
  have a: "map_of info ''timestamp'' = None"
    using assms(5) by (simp add: device_info_app_no_timestamp)
  have b: "track_location_try data t c = Inl (e, c @ [(length c, info)])"
    using assms track_location_try_update_raises [of t status data e c] by simp
  have b': "coll (track_location_pass data t \<lparr>coll = c, events = ev\<rparr>) = c @ [(length c, info)]"
    using b by (simp add: track_location_pass_def)
  have c: "track_location_try data (t\<lparr>update_one_result := Inr now\<rparr>) [] =
        Inr [(0, dict_set info ''timestamp'' (PDateTime now))]"
    using assms track_location_try_ok [of "t\<lparr>update_one_result := Inr now\<rparr>" status data now "[]"]
    by simp
  have m: "find_one (dict_get data ''id'' PNone) [(0, info)] = Some (0, info)"
    using assms(5) by (simp add: matches_def device_info_app_device_id)
  have d: "get_location str_oid fmt \<lparr>mongo_collection = [(0, info)], target_device = data, sounds_played = n\<rparr> =
             ((PDict [(''error'', PStr (str_exn (KeyError ''timestamp'')))], 500),
              \<lparr>mongo_collection = [(0, info)], target_device = data, sounds_played = n\<rparr>)"
    using m a get_location_no_timestamp [of "\<lparr>mongo_collection = [(0, info)], target_device = data, sounds_played = n\<rparr>" 0 info]
    by simp
  show ?thesis using a b b' c d by (simp add: insert_one_def)
qed

theorem insert_then_update_witness:
  "tick_status tick_update_raises = Inr example_status
   \<and> insert_one_raises tick_update_raises = None
   \<and> update_one_result tick_update_raises = Inl (SinkError ''connection lost'')
   \<and> coll (track_location_pass example_data tick_update_raises empty_tracker) =
       [(0, device_info_app example_data example_status (located (tick_location tick_update_raises)))]
   \<and> map_of (device_info_app example_data example_status (located (tick_location tick_update_raises)))
        ''timestamp'' = None
   \<and> snd (fst (get_location example_str_oid example_isoformat
        (example_app [(0, device_info_app example_data example_status
                            (located (tick_location tick_update_raises)))]))) = 500"
proof -
  have s: "tick_status tick_update_raises = Inr example_status"
    and i: "insert_one_raises tick_update_raises = None"
    and u: "update_one_result tick_update_raises = Inl (SinkError ''connection lost'')"
    by (simp_all add: tick_update_raises_def)
  have p: "truthy_dict (located (tick_location tick_update_raises)) \<longrightarrow>
      print_tracked (device_info_app example_data example_status
        (located (tick_location tick_update_raises))) example_status = Inr ()"
    using example_print_ok by simp
  show ?thesis
    using s i u insert_then_update [OF s p i u refl, where c = "[]" and ev = "[]"
        and str_oid = example_str_oid and fmt = example_isoformat and n = 0]
    by (simp add: empty_tracker_def example_app_def)
qed

section \<open>The mapper\<close>

lemmas mapper_defs = fetch_device_def device_info_def with_location_def located_def
  geo_point_def location_data_def dict_get_def

text \<open>
  C8 (as amended). For the device named "Jane's iPhone", model "iPhone 16 Pro", battery
  0.82, located at (37.7749, -122.4194) with accuracy 5.0 and fix time \<open>T\<close>, the mapper of
  the command-line trackers gives the record below: name, model and battery level as
  claimed; \<^verbatim>\<open>location\<close> is a GeoJSON point (longitude first); latitude, longitude, accuracy
  and the fix time are under \<^verbatim>\<open>location_data\<close>, the fix time as
  \<^verbatim>\<open>location_timestamp\<close>; the other fields take their defaults and \<^verbatim>\<open>timestamp\<close> is the
  clock reading.
\<close>

theorem jane_record:
  "fetch_device (example_device T) now =
     Inr [(''device_id'', PStr ''device-1''),
          (''name'', PStr ''Jane's iPhone''),
          (''model'', PStr ''iPhone 16 Pro''),
          (''device_class'', PStr ''Unknown''),
          (''raw_model'', PStr ''Unknown''),
          (''battery_level'', PFloat 0.82),
          (''battery_status'', PNone),
          (''device_status'', PNone),
          (''location_enabled'', PBool False),
          (''timestamp'', PDateTime now),
          (''location'',
           PDict [(''type'', PStr ''Point''),
                  (''coordinates'', PList [PFloat (- 122.4194), PFloat 37.7749])]),
          (''location_data'',
           PDict [(''latitude'', PFloat 37.7749),
                  (''longitude'', PFloat (- 122.4194)),
                  (''accuracy'', PFloat 5.0),
                  (''position_type'', PNone),
                  (''is_old'', PBool False),
                  (''location_timestamp'', PInt (int T))])]"
  by (simp add: example_device_def example_defs mapper_defs)

text \<open>
  The record is not the one the claim first stated: its \<^verbatim>\<open>location\<close> has neither a
  \<^verbatim>\<open>lat\<close> nor a \<^verbatim>\<open>timestamp\<close> key.
\<close>

theorem jane_record_counterexample:
  "fetch_device (example_device 1700000000) 1700000001 \<noteq>
     Inr [(''name'', PStr ''Jane's iPhone''),
          (''model'', PStr ''iPhone 16 Pro''),
          (''battery_level'', PFloat 0.82),
          (''location'',
           PDict [(''lat'', PFloat 37.7749), (''lon'', PFloat (- 122.4194)),
                  (''accuracy'', PFloat 5.0), (''timestamp'', PInt 1700000000)])]
   \<and> ebind (fetch_device (example_device 1700000000) 1700000001)
        (\<lambda>r. subscript (dict_get r ''location'' PNone) ''lat'') = Inl (KeyError ''lat'')
   \<and> ebind (fetch_device (example_device 1700000000) 1700000001)
        (\<lambda>r. subscript (dict_get r ''location'' PNone) ''timestamp'') = Inl (KeyError ''timestamp'')"
  by (simp add: example_device_def example_defs mapper_defs dict_item_def)

text \<open>
  C7. A location that is there but has no \<^verbatim>\<open>latitude\<close>: the progress line of the Flask
  tracker formats \<^verbatim>\<open>None\<close> with \<^verbatim>\<open>:.6f\<close> and raises \<^verbatim>\<open>TypeError\<close>, so the pass stores
  nothing; the mapper of the command-line trackers maps the same input to a record.
\<close>

theorem print_raises_without_latitude:
  "track_location_try example_data tick_no_latitude [] = Inl (TypeError, [])
   \<and> coll (track_location_pass example_data tick_no_latitude empty_tracker) = []
   \<and> fetch_device \<lparr>dev_data = example_data, dev_status = tick_status tick_no_latitude,
         dev_location = tick_location tick_no_latitude\<rparr> 0 =
       Inr (device_info example_data example_status (Some [(''longitude'', PFloat (- 122.4194))]) 0)"
  by (simp add: tick_no_latitude_def example_defs flask_pass_defs fetch_device_def)

text \<open>
  What does hold of the mappers: an unavailable location (none, empty, or a fetch that
  raised) gives null location fields, the command-line mapper never raises, and neither
  does the Flask pass when the location is unavailable.
\<close>

lemma with_location_unavailable:
  "\<not> truthy_dict location \<Longrightarrow>
   dict_get (with_location info location) ''location'' PNone = PNone \<and>
   dict_get (with_location info location) ''location_data'' PNone = PNone"
  by (cases location) (simp_all add: with_location_def)

lemma mapper_unavailable:
  assumes "\<not> truthy_dict (located l)"
  shows "dict_get (device_info data status (located l) now) ''location'' PNone = PNone"
    and "dict_get (device_info data status (located l) now) ''location_data'' PNone = PNone"
    and "dict_get (device_info_app data status (located l)) ''location'' PNone = PNone"
    and "dict_get (device_info_app data status (located l)) ''location_data'' PNone = PNone"
  using assms by (simp_all add: device_info_def device_info_app_def with_location_unavailable)

lemma fetch_device_total:
  "dev_status device = Inr status \<Longrightarrow>
   fetch_device device now = Inr (device_info (dev_data device) status (located (dev_location device)) now)"
  by (simp add: fetch_device_def)

lemma track_location_try_unavailable:
  assumes "tick_status t = Inr status" and "\<not> truthy_dict (located (tick_location t))"
    and "insert_one_raises t = None" and "update_one_result t = Inr now"
    and "\<forall>d\<in>set c. fst d \<noteq> length c"
  shows "track_location_try data t c =
     Inr (c @ [(length c, dict_set (device_info_app data status (located (tick_location t)))
                      ''timestamp'' (PDateTime now))])"
  using assms track_location_try_ok [of t status data now c] by simp

section \<open>Where the creation timestamp comes from\<close>

lemmas cli_pass_defs = track_iteration_def fetch_device_locations_def save_to_mongodb_def
  insert_many_def display_loc_def dict_item_def

lemma timestamp_key_device_info [simp]:
  "timestamp_key (i, device_info data status location now) = Some now"
  by (simp add: timestamp_key_def device_info_timestamp)

lemma timestamp_key_dict_set [simp]:
  "timestamp_key (i, dict_set d ''timestamp'' (PDateTime t)) = Some t"
  by (simp add: timestamp_key_def)

lemma timestamp_key_device_info_app [simp]:
  "timestamp_key (i, device_info_app data status location) = None"
  by (simp add: timestamp_key_def device_info_app_no_timestamp)

lemma insert_many_keeps:
  "map snd (drop (length c) (snd (insert_many docs c))) = docs"
  by (simp add: insert_many_def)

lemma example_fetch:
  "fetch_device_locations (api_devices (example_poll now)) =
     ([device_info example_data example_status (Some (example_location 1700000000)) now], [])"
  by (simp add: fetch_device_locations_def example_poll_def example_device_def fetch_device_def located_def)

lemma example_display:
  "display_loc (device_info example_data example_status (Some (example_location 1700000000)) now) = Inr ()"
  by (simp add: display_loc_def example_defs mapper_defs dict_item_def)

lemma example_pass:
  "track_iteration (example_poll now) st =
     Inr \<lparr>coll = coll st @ [(length (coll st),
             device_info example_data example_status (Some (example_location 1700000000)) now)],
          events = events st @ [Slept]\<rparr>"
proof -
  have "insert_many_raises (example_poll now) = None" by (simp add: example_poll_def)
  then show ?thesis
    by (simp add: track_iteration_def example_fetch example_display save_to_mongodb_def insert_many_def)
qed

text \<open>
  C3 (as amended). In the Flask tracker the document handed to \<^verbatim>\<open>insert_one\<close> has no
  \<^verbatim>\<open>timestamp\<close>; a pass in which every step succeeds stores it with the value the server
  wrote in \<^verbatim>\<open>update_one\<close>. In the two command-line trackers the mapper itself puts the
  reading of \<^verbatim>\<open>datetime.now()\<close> into the record, and \<^verbatim>\<open>insert_many\<close> stores the
  records as they are handed over.
\<close>

theorem timestamp_origin:
  assumes "tick_status t = Inr status"
    and "truthy_dict (located (tick_location t)) \<longrightarrow> print_tracked info status = Inr ()"
    and "insert_one_raises t = None"
    and "update_one_result t = Inr server_now"
    and "\<forall>d\<in>set c. fst d \<noteq> length c"
    and "info = device_info_app data status (located (tick_location t))"
  shows "map_of info ''timestamp'' = None
    \<and> track_location_try data t c =
        Inr (c @ [(length c, dict_set info ''timestamp'' (PDateTime server_now))])
    \<and> timestamp_key (length c, dict_set info ''timestamp'' (PDateTime server_now)) = Some server_now
    \<and> map_of (device_info data' status' location' client_now) ''timestamp'' = Some (PDateTime client_now)
    \<and> map snd (drop (length c') (snd (insert_many docs c'))) = docs"
  using assms track_location_try_ok [of t status data server_now c]
  by (simp add: device_info_app_no_timestamp device_info_timestamp insert_many_keeps timestamp_key_def)

theorem timestamp_origin_witness:
  "tick_status (tick_ok 9) = Inr example_status
   \<and> update_one_result (tick_ok 9) = Inr 9
   \<and> map_of (device_info_app example_data example_status (located (tick_location (tick_ok 9))))
        ''timestamp'' = None
   \<and> map timestamp_key (coll (track_location_pass example_data (tick_ok 9) empty_tracker)) = [Some 9]"
proof -
  have s: "tick_status (tick_ok 9) = Inr example_status"
    and i: "insert_one_raises (tick_ok 9) = None"
    and u: "update_one_result (tick_ok 9) = Inr 9"
    by (simp_all add: tick_ok_def)
  have p: "truthy_dict (located (tick_location (tick_ok 9))) \<longrightarrow>
      print_tracked (device_info_app example_data example_status
        (located (tick_location (tick_ok 9)))) example_status = Inr ()"
    by (simp add: example_defs flask_pass_defs)
  have f: "\<forall>d\<in>set ([] :: collection). fst d \<noteq> length ([] :: collection)" by simp
  show ?thesis
    using s u timestamp_origin [OF s p i u f refl]
    by (simp add: empty_tracker_def track_location_pass_def)
qed

text \<open>
  The claim as first stated fails for the command-line trackers: the record the mapper
  hands to the sink already carries a \<^verbatim>\<open>timestamp\<close>, the clock reading 5 of the polling
  process, and that is the stored document's timestamp.
\<close>

theorem client_timestamp_counterexample:
  "map (\<lambda>r. map_of r ''timestamp'') (fst (fetch_device_locations (api_devices (example_poll 5))))
     = [Some (PDateTime 5)]
   \<and> map timestamp_key (coll (fst (track_continuously [example_poll 5] empty_tracker))) = [Some 5]"
  by (simp add: example_fetch example_pass device_info_timestamp timestamp_key_def empty_tracker_def)

section \<open>Errors inside a pass\<close>



lemma track_location_try_raises:
  assumes "track_location_try data t c = Inl (e, c')"
  shows "c' = c \<or>
         (update_one_result t = Inl e \<and> insert_one_raises t = None \<and>
          (\<exists>status. tick_status t = Inr status \<and>
             c' = c @ [(length c, device_info_app data status (located (tick_location t)))]))"
  using assms
  by (auto simp add: track_location_try_def insert_one_def Let_def
      split: sum.splits option.splits if_splits)










section \<open>Creation timestamps are ordered when the clock is\<close>

lemma timestamps_simps [simp]:
  "timestamps [] = []"
  "timestamps (doc # c) = (case timestamp_key doc of None \<Rightarrow> [] | Some t \<Rightarrow> [t]) @ timestamps c"
  "timestamps (c @ c') = timestamps c @ timestamps c'"
  by (simp_all add: timestamps_def)

lemma fetch_loop_result:
  "fetch_loop devices locations = Inr ls \<Longrightarrow>
   \<exists>new. ls = locations @ new \<and> length new = length devices \<and>
     (\<forall>ids. length ids = length devices \<longrightarrow> timestamps (zip ids new) = map snd devices)"
proof (induction devices arbitrary: locations)
  case Nil
  then show ?case by simp
next
  case (Cons a devices)
  obtain device now where a: "a = (device, now)" by (cases a)
  from Cons.prems a obtain info where
    i: "fetch_device device now = Inr info" and
    r: "fetch_loop devices (locations @ [info]) = Inr ls"
    by (auto split: sum.splits)
  from Cons.IH [OF r] obtain new where
    n: "ls = (locations @ [info]) @ new" "length new = length devices"
    "\<forall>ids. length ids = length devices \<longrightarrow> timestamps (zip ids new) = map snd devices"
    by blast
  from i have k: "\<And>j. timestamp_key (j, info) = Some now"
    by (auto simp add: fetch_device_def split: sum.splits)
  have "\<forall>ids. length ids = length (a # devices) \<longrightarrow>
      timestamps (zip ids (info # new)) = map snd (a # devices)"
  proof (intro allI impI)
    fix ids :: "nat list"
    assume "length ids = length (a # devices)"
    then obtain j js where "ids = j # js" "length js = length devices"
      by (cases ids) auto
    then show "timestamps (zip ids (info # new)) = map snd (a # devices)"
      using n(3) k a by simp
  qed
  then show ?case using n by auto
qed

lemma save_effect:
  assumes "fst (fetch_device_locations (api_devices p)) = locations"
    and "save_to_mongodb r c locations = (saved, c', ev)"
  shows "\<exists>new. c' = c @ new \<and> (timestamps new = [] \<or> timestamps new = clock_readings p)"
proof (cases "locations = [] \<or> r \<noteq> None")
  case True
  then have "c' = c" using assms(2)
    by (auto simp add: save_to_mongodb_def split: option.splits if_splits)
  then show ?thesis by simp
next
  case False
  then have c': "c' = c @ zip [length c ..< length c + length locations] locations"
    using assms(2) by (auto simp add: save_to_mongodb_def insert_many_def)
  from False assms(1) obtain devices where
    d: "api_devices p = Inr devices" and f: "fetch_loop devices [] = Inr locations"
    by (cases "api_devices p")
       (auto simp add: fetch_device_locations_def split: sum.splits)
  from fetch_loop_result [OF f] have
    "length locations = length devices"
    "\<forall>ids. length ids = length devices \<longrightarrow> timestamps (zip ids locations) = map snd devices"
    by auto
  then have "timestamps (zip [length c ..< length c + length locations] locations) = map snd devices"
    by simp
  then show ?thesis using c' d by (simp add: clock_readings_def)
qed

lemma track_iteration_effect:
  assumes "track_iteration p st = Inr st'"
  shows "\<exists>new. coll st' = coll st @ new \<and> (timestamps new = [] \<or> timestamps new = clock_readings p)"
proof -
  obtain locations ev1 where f: "fetch_device_locations (api_devices p) = (locations, ev1)"
    by (cases "fetch_device_locations (api_devices p)")
  obtain saved c' ev2 where s: "save_to_mongodb (insert_many_raises p) (coll st) locations = (saved, c', ev2)"
    by (cases "save_to_mongodb (insert_many_raises p) (coll st) locations") 
  from assms f s have "coll st' = c'"
    by (auto simp add: track_iteration_def split: sum.splits)
  then show ?thesis using save_effect [of p locations, OF _ s] f by simp
qed

lemma track_iteration_docker_effect:
  assumes "track_iteration_docker p st = Inr st'"
  shows "\<exists>new. coll st' = coll st @ new \<and> (timestamps new = [] \<or> timestamps new = clock_readings p)"
proof -
  obtain locations ev1 where f: "fetch_device_locations (api_devices p) = (locations, ev1)"
    by (cases "fetch_device_locations (api_devices p)")
  obtain saved c' ev2 where s: "save_to_mongodb (insert_many_raises p) (coll st) locations = (saved, c', ev2)"
    by (cases "save_to_mongodb (insert_many_raises p) (coll st) locations") 
  from assms f s have "coll st' = c'"
    by (auto simp add: track_iteration_docker_def split: sum.splits)
  then show ?thesis using save_effect [of p locations, OF _ s] f by simp
qed

lemma track_iteration_raises:
  "track_iteration p st = Inl st' \<Longrightarrow> coll st' = coll st"
  "track_iteration_docker p st = Inl st' \<Longrightarrow> coll st' = coll st"
  by (auto simp add: track_iteration_def track_iteration_docker_def split: sum.splits prod.splits)

lemma sorted_pass_then_rest:
  assumes "sorted (rp @ rest)" and "ts1 = [] \<or> ts1 = rp" and "sorted ts2" and "set ts2 \<subseteq> set rest"
  shows "sorted (ts1 @ ts2) \<and> set (ts1 @ ts2) \<subseteq> set (rp @ rest)"
  using assms by (auto simp add: sorted_append)

lemma track_continuously_sorted:
  "sorted (concat (map clock_readings ps)) \<Longrightarrow>
   \<exists>new. coll (fst (track_continuously ps st)) = coll st @ new \<and> sorted (timestamps new) \<and>
     set (timestamps new) \<subseteq> set (concat (map clock_readings ps))"
proof (induction ps arbitrary: st)
  case Nil
  then show ?case by simp
next
  case (Cons p ps)
  show ?case
  proof (cases "track_iteration p st")
    case (Inl st')
    then have "coll (fst (track_continuously (p # ps) st)) = coll st @ []"
      using track_iteration_raises(1) [OF Inl] by simp
    then show ?thesis by (metis empty_subsetI list.set(1) sorted_wrt.simps(1) timestamps_simps(1))
  next
    case (Inr st')
    from track_iteration_effect [OF Inr] obtain n1 where
      n1: "coll st' = coll st @ n1" "timestamps n1 = [] \<or> timestamps n1 = clock_readings p"
      by blast
    from Cons.prems have s: "sorted (clock_readings p @ concat (map clock_readings ps))"
      and "sorted (concat (map clock_readings ps))"
      by (simp_all add: sorted_append)
    from Cons.IH [OF this(2), of st'] obtain n2 where
      n2: "coll (fst (track_continuously ps st')) = coll st' @ n2" "sorted (timestamps n2)"
        "set (timestamps n2) \<subseteq> set (concat (map clock_readings ps))"
      by blast
    have "coll (fst (track_continuously (p # ps) st)) = coll st @ (n1 @ n2)"
      using Inr n1 n2 by simp
    moreover have "sorted (timestamps (n1 @ n2)) \<and>
        set (timestamps (n1 @ n2)) \<subseteq> set (concat (map clock_readings (p # ps)))"
      using sorted_pass_then_rest [OF s n1(2) n2(2) n2(3)] by simp
    ultimately show ?thesis by blast
  qed
qed

lemma track_continuously_docker_sorted:
  "sorted (concat (map clock_readings ps)) \<Longrightarrow>
   \<exists>new. coll (fst (track_continuously_docker ps st)) = coll st @ new \<and> sorted (timestamps new) \<and>
     set (timestamps new) \<subseteq> set (concat (map clock_readings ps))"
proof (induction ps arbitrary: st)
  case Nil
  then show ?case by simp
next
  case (Cons p ps)
  show ?case
  proof (cases "track_iteration_docker p st")
    case (Inl st')
    then have "coll (fst (track_continuously_docker (p # ps) st)) = coll st @ []"
      using track_iteration_raises(2) [OF Inl] by simp
    then show ?thesis by (metis empty_subsetI list.set(1) sorted_wrt.simps(1) timestamps_simps(1))
  next
    case (Inr st')
    from track_iteration_docker_effect [OF Inr] obtain n1 where
      n1: "coll st' = coll st @ n1" "timestamps n1 = [] \<or> timestamps n1 = clock_readings p"
      by blast
    from Cons.prems have s: "sorted (clock_readings p @ concat (map clock_readings ps))"
      and "sorted (concat (map clock_readings ps))"
      by (simp_all add: sorted_append)
    from Cons.IH [OF this(2), of st'] obtain n2 where
      n2: "coll (fst (track_continuously_docker ps st')) = coll st' @ n2" "sorted (timestamps n2)"
        "set (timestamps n2) \<subseteq> set (concat (map clock_readings ps))"
      by blast
    have "coll (fst (track_continuously_docker (p # ps) st)) = coll st @ (n1 @ n2)"
      using Inr n1 n2 by simp
    moreover have "sorted (timestamps (n1 @ n2)) \<and>
        set (timestamps (n1 @ n2)) \<subseteq> set (concat (map clock_readings (p # ps)))"
      using sorted_pass_then_rest [OF s n1(2) n2(2) n2(3)] by simp
    ultimately show ?thesis by blast
  qed
qed


lemma fresh_ids_snoc: "fresh_ids c \<Longrightarrow> fresh_ids (c @ [(length c, doc)])"
  by (auto simp add: fresh_ids_def list_all_iff)

lemma fresh_ids_not_length: "fresh_ids c \<Longrightarrow> \<forall>d\<in>set c. fst d \<noteq> length c"
  by (auto simp add: fresh_ids_def list_all_iff)

lemma track_location_try_returns:
  assumes "track_location_try data t c = Inr c'"
  shows "\<exists>status now. tick_status t = Inr status \<and> update_one_result t = Inr now \<and>
     c' = update_one_currentDate (length c) now
            (c @ [(length c, device_info_app data status (located (tick_location t)))])"
  using assms
  by (auto simp add: track_location_try_def insert_one_def Let_def
      split: sum.splits option.splits if_splits)

lemma track_location_pass_effect:
  assumes "fresh_ids (coll st)"
  shows "\<exists>new. coll (track_location_pass data t st) = coll st @ new \<and>
     fresh_ids (coll (track_location_pass data t st)) \<and>
     (timestamps new = [] \<or> timestamps new = server_clock t)"
proof (cases "track_location_try data t (coll st)")
  case (Inl a)
  obtain e c' where a: "a = (e, c')" by (cases a)
  have p: "coll (track_location_pass data t st) = c'"
    using Inl a by (simp add: track_location_pass_def)
  from track_location_try_raises [of data t "coll st" e c'] Inl a
  consider "c' = coll st" |
    status where "c' = coll st @ [(length (coll st), device_info_app data status (located (tick_location t)))]"
    by auto
  then show ?thesis
  proof cases
    case 1
    then show ?thesis using p assms by simp
  next
    case 2
    then show ?thesis using p assms fresh_ids_snoc by auto
  qed
next
  case (Inr c')
  from track_location_try_returns [OF Inr] obtain status now where
    u: "update_one_result t = Inr now" and
    c': "c' = update_one_currentDate (length (coll st)) now
           (coll st @ [(length (coll st), device_info_app data status (located (tick_location t)))])"
    by blast
  have c'': "c' = coll st @ [(length (coll st),
       dict_set (device_info_app data status (located (tick_location t))) ''timestamp'' (PDateTime now))]"
    using c' update_one_fresh [OF fresh_ids_not_length [OF assms]] by simp
  have p: "coll (track_location_pass data t st) = c'"
    using Inr by (simp add: track_location_pass_def)
  show ?thesis using p c'' u assms fresh_ids_snoc by (auto simp add: server_clock_def)
qed

lemma track_location_sorted:
  "fresh_ids (coll st) \<Longrightarrow> sorted (concat (map server_clock ts)) \<Longrightarrow>
   \<exists>new. coll (fst (track_location data ts st)) = coll st @ new \<and> sorted (timestamps new) \<and>
     set (timestamps new) \<subseteq> set (concat (map server_clock ts))"
proof (induction ts arbitrary: st)
  case Nil
  then show ?case by simp
next
  case (Cons t ts)
  show ?case
  proof (cases "tracking_active t")
    case False
    then have "coll (fst (track_location data (t # ts) st)) = coll st @ []" by simp
    then show ?thesis by (metis empty_subsetI list.set(1) sorted_wrt.simps(1) timestamps_simps(1))
  next
    case True
    from track_location_pass_effect [OF Cons.prems(1), of data t] obtain n1 where
      n1: "coll (track_location_pass data t st) = coll st @ n1"
        "fresh_ids (coll (track_location_pass data t st))"
        "timestamps n1 = [] \<or> timestamps n1 = server_clock t"
      by blast
    from Cons.prems(2) have s: "sorted (server_clock t @ concat (map server_clock ts))"
      and "sorted (concat (map server_clock ts))"
      by (simp_all add: sorted_append)
    from Cons.IH [OF n1(2) this(2)] obtain n2 where
      n2: "coll (fst (track_location data ts (track_location_pass data t st))) =
             coll (track_location_pass data t st) @ n2"
        "sorted (timestamps n2)" "set (timestamps n2) \<subseteq> set (concat (map server_clock ts))"
      by blast
    have "coll (fst (track_location data (t # ts) st)) = coll st @ (n1 @ n2)"
      using True n1 n2 by simp
    moreover have "sorted (timestamps (n1 @ n2)) \<and>
        set (timestamps (n1 @ n2)) \<subseteq> set (concat (map server_clock (t # ts)))"
      using sorted_pass_then_rest [OF s n1(3) n2(2) n2(3)] by simp
    ultimately show ?thesis by blast
  qed
qed

text \<open>
  C2 (as amended). If the clock readings of a run do not decrease from one reading to the
  next (\<^verbatim>\<open>datetime.now()\<close> for the command-line trackers, the server's
  \<^verbatim>\<open>$currentDate\<close> for the Flask tracker), then the creation timestamps of the records
  the run has stored are non-decreasing in insertion order. For the Flask tracker the
  collection it starts on holds no \<^verbatim>\<open>_id\<close> the driver is still to draw (ObjectIds are
  unique), and a record left without a timestamp is skipped.
\<close>

theorem timestamps_non_decreasing:
  assumes "sorted (concat (map clock_readings ps))"
    and "sorted (concat (map server_clock ts))"
    and "fresh_ids (coll st')"
  shows "sorted (timestamps (drop (length (coll st)) (coll (fst (track_continuously ps st)))))
    \<and> sorted (timestamps (drop (length (coll st)) (coll (fst (track_continuously_docker ps st)))))
    \<and> sorted (timestamps (drop (length (coll st')) (coll (fst (track_location data ts st')))))"
proof -
  from track_continuously_sorted [OF assms(1), of st]
  have a: "sorted (timestamps (drop (length (coll st)) (coll (fst (track_continuously ps st)))))"
    by auto
  from track_continuously_docker_sorted [OF assms(1), of st]
  have b: "sorted (timestamps (drop (length (coll st)) (coll (fst (track_continuously_docker ps st)))))"
    by auto
  from track_location_sorted [OF assms(3) assms(2), of data]
  have c: "sorted (timestamps (drop (length (coll st')) (coll (fst (track_location data ts st')))))"
    by auto
  show ?thesis using a b c by simp
qed

lemma example_run:
  "coll (fst (track_continuously [example_poll a, example_poll b] empty_tracker)) =
     [(0, device_info example_data example_status (Some (example_location 1700000000)) a),
      (1, device_info example_data example_status (Some (example_location 1700000000)) b)]"
  by (simp add: example_pass empty_tracker_def)

theorem timestamps_non_decreasing_witness:
  "sorted (concat (map clock_readings [example_poll 5, example_poll 10]))
   \<and> sorted (concat (map server_clock [tick_ok 3, tick_update_raises, tick_ok 4]))
   \<and> fresh_ids (coll empty_tracker)
   \<and> timestamps (coll (fst (track_continuously [example_poll 5, example_poll 10] empty_tracker)))
       = [5, 10]
   \<and> sorted (timestamps (coll (fst (track_continuously [example_poll 5, example_poll 10] empty_tracker))))
   \<and> sorted (timestamps (coll (fst (track_location example_data
         [tick_ok 3, tick_update_raises, tick_ok 4] empty_tracker))))"
proof -
  have a: "sorted (concat (map clock_readings [example_poll 5, example_poll 10]))"
    by (simp add: clock_readings_def example_poll_def)
  have b: "sorted (concat (map server_clock [tick_ok 3, tick_update_raises, tick_ok 4]))"
    by (simp add: server_clock_def tick_ok_def tick_update_raises_def)
  have c: "fresh_ids (coll empty_tracker)"
    by (simp add: fresh_ids_def empty_tracker_def)
  have d: "timestamps (coll (fst (track_continuously [example_poll 5, example_poll 10] empty_tracker)))
       = [5, 10]"
    unfolding example_run by simp
  show ?thesis
    using a b c d timestamps_non_decreasing [OF a b c, where st = empty_tracker and data = example_data]
    by (simp add: empty_tracker_def)
qed

text \<open>
  The claim as first stated fails: sequential polling by one process stores the
  timestamps 10, 5 when \<^verbatim>\<open>datetime.now()\<close>, a wall clock in local time, reads 10 and
  then 5.
\<close>

theorem clock_steps_back_counterexample:
  "timestamps (coll (fst (track_continuously [example_poll 10, example_poll 5] empty_tracker)))
     = [10, 5]
   \<and> \<not> sorted (timestamps (coll (fst (track_continuously [example_poll 10, example_poll 5]
            empty_tracker))))"
  unfolding example_run by simp

section \<open>The most recent record\<close>










lemma length_batch [simp]: "length (batch n ds) = length ds"
  by (simp add: batch_def)














end
